theory Spec2Isabelle
  imports Complex_Main "HOL-Library.Sublist"
begin

section \<open>Python values used by the transcoder\<close>

text \<open>
  The development embeds \<^verbatim>\<open>process_guitar_pro\<close> of \<^verbatim>\<open>streamlit_app.py\<close>.
  Python integers are \<^typ>\<open>int\<close>, Python strings are \<^typ>\<open>string\<close>, and every
  exception the function can raise on a well-typed song is a value of \<open>py_exception\<close>.
\<close>

datatype py_exception = IndexError | KeyError

text \<open>\<^verbatim>\<open>str(n)\<close> and the \<^verbatim>\<open>{n}\<close> of an f-string, for an integer \<open>n\<close>.\<close>

definition digit_char :: "nat \<Rightarrow> char" where
  "digit_char n = ''0123456789'' ! n"

fun str_nat :: "nat \<Rightarrow> string" where
  "str_nat n = (if n < 10 then [digit_char n] else str_nat (n div 10) @ [digit_char (n mod 10)])"

declare str_nat.simps [simp del]

definition str_int :: "int \<Rightarrow> string" where
  "str_int i = (if i < 0 then CHR ''-'' # str_nat (nat (- i)) else str_nat (nat i))"

text \<open>\<^verbatim>\<open>int(x)\<close> on a number: truncation towards zero.\<close>

definition py_int :: "rat \<Rightarrow> int" where
  "py_int x = (if 0 \<le> x then \<lfloor>x\<rfloor> else \<lceil>x\<rceil>)"

text \<open>
  Subscripting a list, \<^verbatim>\<open>xs[i]\<close>: an index from \<open>-len\<close> up to \<open>-1\<close> addresses the list
  from its end; outside \<open>-len .. len - 1\<close> Python raises.
\<close>

definition py_index :: "'a list \<Rightarrow> int \<Rightarrow> py_exception + 'a" where
  "py_index xs i =
     (if 0 \<le> i \<and> i < int (length xs) then Inr (xs ! nat i)
      else if - int (length xs) \<le> i \<and> i < 0 then Inr (xs ! nat (int (length xs) + i))
      else Inl IndexError)"

text \<open>\<^verbatim>\<open>str.upper\<close> and \<^verbatim>\<open>str.lower\<close> on ASCII text.\<close>

definition ascii_lowercase :: string where
  "ascii_lowercase = ''abcdefghijklmnopqrstuvwxyz''"

definition ascii_uppercase :: string where
  "ascii_uppercase = ''ABCDEFGHIJKLMNOPQRSTUVWXYZ''"

definition upper_char :: "char \<Rightarrow> char" where
  "upper_char c = (case map_of (zip ascii_lowercase ascii_uppercase) c of Some u \<Rightarrow> u | None \<Rightarrow> c)"

definition lower_char :: "char \<Rightarrow> char" where
  "lower_char c = (case map_of (zip ascii_uppercase ascii_lowercase) c of Some l \<Rightarrow> l | None \<Rightarrow> c)"

definition upper :: "string \<Rightarrow> string" where
  "upper s = map upper_char s"

definition lower :: "string \<Rightarrow> string" where
  "lower s = map lower_char s"

text \<open>\<^verbatim>\<open>sub in s\<close> on strings.\<close>

definition contains :: "string \<Rightarrow> string \<Rightarrow> bool" where
  "contains sub s = sublist sub s"

section \<open>Duration encoding\<close>

text \<open>
  The three beat branches (rest, chord, single note) repeat the same computation:
  \<^verbatim>\<open>dur = beat.duration.value if beat.duration else 4\<close>,
  \<^verbatim>\<open>length_multiplier = 16 / dur if dur != 0 else 16\<close>, times \<^verbatim>\<open>1.5\<close> when dotted.
  The multiplier is a rational number here. On the duration codes of a tablature file
  (the powers of two from 1 to 128) every double-precision step of the source is exact,
  so the source takes the same values; on other codes the rounding of the double quotient
  can change the truncated reciprocal (code 936, dotted, is the first such case).
\<close>

record duration =
  dur_value :: int
  isDotted :: bool

definition length_multiplier :: "duration option \<Rightarrow> rat" where
  "length_multiplier d =
     (let dur = (case d of Some du \<Rightarrow> dur_value du | None \<Rightarrow> 4);
          m = (if dur \<noteq> 0 then 16 / of_int dur else 16)
      in if (case d of Some du \<Rightarrow> isDotted du | None \<Rightarrow> False) then m * (3 / 2) else m)"

definition suffix_of_multiplier :: "rat \<Rightarrow> string" where
  "suffix_of_multiplier m =
     (if m = 1 then []
      else if m < 1 then CHR ''/'' # str_int (py_int (1 / m))
      else str_int (py_int m))"

definition duration_suffix :: "duration option \<Rightarrow> string" where
  "duration_suffix d = suffix_of_multiplier (length_multiplier d)"

section \<open>Pitch encoding\<close>

definition note_names :: "string list" where
  "note_names = [''C'', ''^C'', ''D'', ''^D'', ''E'', ''F'', ''^F'', ''G'', ''^G'', ''A'', ''^A'', ''B'']"

definition startswith_caret :: "string \<Rightarrow> bool" where
  "startswith_caret s = (case s of [] \<Rightarrow> False | c # _ \<Rightarrow> c = CHR ''^'')"

definition midi_to_abc :: "int \<Rightarrow> string" where
  "midi_to_abc pitch =
     (let name = note_names ! nat (pitch mod 12);
          octave = pitch div 12 - 1;
          base_octave = 4;
          letter = (if startswith_caret name then name ! 1 else name ! 0);
          abc_letter =
            (if octave \<ge> base_octave then
               (if octave = base_octave then [upper_char letter] else [lower_char letter])
               @ (if octave > base_octave + 1 then replicate (nat (octave - 5)) (CHR 0x27) else [])
             else [upper_char letter] @ replicate (nat (base_octave - octave)) CHR '',''
            )
      in if startswith_caret name then CHR ''^'' # abc_letter else abc_letter)"

section \<open>Chord recognition\<close>

definition name_map :: "int \<Rightarrow> string" where
  "name_map r = [''C'', ''C#'', ''D'', ''D#'', ''E'', ''F'', ''F#'', ''G'', ''G#'', ''A'', ''A#'', ''B''] ! nat r"

definition identify_chord :: "int list \<Rightarrow> string option" where
  "identify_chord pitches =
     (let pcs = sort (remdups (map (\<lambda>p. p mod 12) pitches))
      in if pcs = [] then None
         else
           let root = hd pcs;
               rel = sort (map (\<lambda>pc. (pc - root) mod 12) pcs);
               root_name = name_map root;
               intervals = tl rel
           in if length rel = 2 then (if rel ! 1 = 7 then Some (root_name @ ''5'') else None)
              else if length rel = 3 \<and> intervals = [4, 7] then Some (root_name @ ''maj'')
              else if length rel = 3 \<and> intervals = [3, 7] then Some (root_name @ ''min'')
              else if length rel = 3 \<and> intervals = [3, 6] then Some (root_name @ ''dim'')
              else if length rel = 3 \<and> intervals = [4, 8] then Some (root_name @ ''aug'')
              else if length rel = 3 \<and> intervals = [2, 7] then Some (root_name @ ''sus2'')
              else if length rel = 3 \<and> intervals = [5, 7] then Some (root_name @ ''sus4'')
              else if length rel = 4 \<and> intervals = [4, 7, 10] then Some (root_name @ ''7'')
              else if length rel = 4 \<and> intervals = [3, 7, 10] then Some (root_name @ ''min7'')
              else if length rel = 4 \<and> intervals = [4, 7, 11] then Some (root_name @ ''maj7'')
              else if length rel = 4 \<and> intervals = [3, 6, 10] then Some (root_name @ ''min7b5'')
              else if length rel = 4 \<and> intervals = [3, 6, 9] then Some (root_name @ ''dim7'')
              else if length rel = 4 \<and> intervals = [4, 7, 9] then Some (root_name @ ''6'')
              else if length rel = 4 \<and> intervals = [3, 7, 9] then Some (root_name @ ''min6'')
              else None)"

section \<open>The song model\<close>

text \<open>
  The parsed song, as far as \<^verbatim>\<open>process_guitar_pro\<close> reads it. An attribute probed with
  \<^verbatim>\<open>getattr(obj, name, default)\<close> or \<^verbatim>\<open>hasattr\<close> is an \<open>option\<close>; an attribute
  tested with \<^verbatim>\<open>is not None\<close> or by truthiness only is the \<open>bool\<close> of that test.
\<close>

record note_effect =
  bend :: bool
  hammer :: bool
  isHammerOn :: "bool option"
  harmonic :: bool
  slides :: bool
  note_vibrato :: bool
  palmMute :: bool
  staccato :: bool
  tapping :: bool
  tremoloPicking :: bool

record gp_note =
  note_string :: int
  note_value :: int
  note_effect :: "note_effect option"

record beat_effect =
  tremoloBar :: bool
  slide :: bool
  beat_vibrato :: bool

record beat =
  beat_duration :: "duration option"
  beat_notes :: "gp_note list"
  beat_effect :: "beat_effect option"
  beat_text :: "string option"

record repeat_info =
  closings :: int
  rep_close :: bool
  rep_open :: bool

record measure_header =
  ts_numerator :: int
  ts_denominator_value :: int
  marker_title :: "string option"
  hdr_text :: "string option"
  hdr_direction :: "string option"
  hdr_annotation :: "string option"
  hdr_comment :: "string option"
  repeatAlternative :: int
  hdr_repeat :: "repeat_info option"

record measure =
  header :: measure_header
  voices :: "beat list list"

record track =
  isPercussionTrack :: bool
  instrument :: "int option"
  strings :: "int list"
  track_name :: string
  track_number :: int
  track_description :: "string option"
  track_comments :: "string option"
  measures :: "measure list"

text \<open>
  The key signature of the song: absent or falsy (\<open>NoKey\<close>), a pair
  \<^verbatim>\<open>(sharps, is_minor)\<close> read by subscript or from \<^verbatim>\<open>.value\<close> (\<open>KeyPair\<close>), or an object
  that offers neither and is read through \<^verbatim>\<open>str(key_info)\<close> (\<open>KeyName\<close>).
\<close>

datatype key_info = NoKey | KeyPair int int | KeyName string

record song =
  tempo :: int
  song_key :: key_info
  tracks :: "track list"
  song_title :: "string option"
  song_artist :: "string option"
  song_album :: "string option"
  song_composer :: "string option"
  song_copyright :: "string option"
  song_instructions :: "string option"
  song_notice :: "string option"
  song_subtitles :: "string list option"

definition getattr :: "'a option \<Rightarrow> 'a \<Rightarrow> 'a" where
  "getattr a d = (case a of Some v \<Rightarrow> v | None \<Rightarrow> d)"

text \<open>\<^verbatim>\<open>sep.join(xs)\<close>.\<close>

fun join :: "string \<Rightarrow> string list \<Rightarrow> string" where
  "join sep [] = []"
| "join sep [x] = x"
| "join sep (x # y # ys) = x @ sep @ join sep (y # ys)"

text \<open>\<^verbatim>\<open>s.strip()\<close> on ASCII text.\<close>

definition is_space :: "char \<Rightarrow> bool" where
  "is_space c = (c \<in> set [CHR '' '', CHR 0x09, CHR 0x0A, CHR 0x0B, CHR 0x0C, CHR 0x0D,
                           CHR 0x1C, CHR 0x1D, CHR 0x1E, CHR 0x1F])"

definition strip :: "string \<Rightarrow> string" where
  "strip s = rev (dropWhile is_space (rev (dropWhile is_space s)))"

section \<open>Key and time signature\<close>

definition major_map :: "(int \<times> string) list" where
  "major_map = [(0, ''C''), (1, ''G''), (2, ''D''), (3, ''A''), (4, ''E''), (5, ''B''),
                (6, ''F#''), (7, ''C#''), (-1, ''F''), (-2, ''Bb''), (-3, ''Eb''),
                (-4, ''Ab''), (-5, ''Db''), (-6, ''Gb''), (-7, ''Cb'')]"

definition minor_map :: "(int \<times> string) list" where
  "minor_map = [(0, ''Am''), (1, ''Em''), (2, ''Bm''), (3, ''F#m''), (4, ''C#m''), (5, ''G#m''),
                (6, ''D#m''), (7, ''A#m''), (-1, ''Dm''), (-2, ''Gm''), (-3, ''Cm''),
                (-4, ''Fm''), (-5, ''Bbm''), (-6, ''Ebm''), (-7, ''Abm'')]"

definition key_note_names :: "string list" where
  "key_note_names = [''C'', ''G'', ''D'', ''A'', ''E'', ''B'', ''F#'', ''C#'', ''F'',
                     ''Bb'', ''Eb'', ''Ab'', ''Db'', ''Gb'', ''Cb'']"

text \<open>
  The branch for a key read by name: the local \<^verbatim>\<open>is_minor\<close> and the \<^verbatim>\<open>key_text\<close> left
  by the loop over the note names (the default \<^verbatim>\<open>"C"\<close> when none occurs in the name).
\<close>

definition key_from_name :: "string \<Rightarrow> int \<times> string" where
  "key_from_name name =
     (if contains ''Minor'' name then 1 else 0,
      case find (\<lambda>noteName. contains noteName name) key_note_names of
        Some noteName \<Rightarrow> noteName | None \<Rightarrow> ''C'')"

definition resolve_key :: "key_info \<Rightarrow> py_exception + string" where
  "resolve_key k =
     (case k of
        NoKey \<Rightarrow> Inr ''C''
      | KeyPair sharps is_minor \<Rightarrow>
          (case map_of (if is_minor \<noteq> 0 then minor_map else major_map) sharps of
             Some key_text \<Rightarrow> Inr key_text
           | None \<Rightarrow> Inl KeyError)
      | KeyName name \<Rightarrow> Inr (snd (key_from_name name)))"

definition resolve_time_signature :: "song \<Rightarrow> int \<times> int" where
  "resolve_time_signature s =
     (case tracks s of
        [] \<Rightarrow> (4, 4)
      | t # _ \<Rightarrow>
          (case measures t of
             [] \<Rightarrow> (4, 4)
           | m # _ \<Rightarrow> (ts_numerator (header m), ts_denominator_value (header m))))"

text \<open>The \<^verbatim>\<open>Key:\<close> line of the preamble.\<close>

definition key_line :: "string \<Rightarrow> string" where
  "key_line key_text =
     (if key_text \<noteq> [] \<and> last key_text = CHR ''m''
      then ''Key: '' @ butlast key_text @ '' minor''
      else ''Key: '' @ key_text @ '' major'')"

section \<open>Beats\<close>

text \<open>The technique markers of a single note, in the order the source appends them.\<close>

definition note_effects :: "note_effect option \<Rightarrow> string list" where
  "note_effects e =
     (case e of
        None \<Rightarrow> []
      | Some ne \<Rightarrow>
          (if bend ne then [''b''] else [])
          @ (if hammer ne then [if getattr (isHammerOn ne) True then ''ho'' else ''po''] else [])
          @ (if harmonic ne then [''h''] else [])
          @ (if slides ne then [''s''] else [])
          @ (if note_vibrato ne then [''v''] else [])
          @ (if palmMute ne then [''pm''] else [])
          @ (if staccato ne then [''st''] else [])
          @ (if tapping ne then [''t''] else [])
          @ (if tremoloPicking ne then [''tr''] else []))"

definition beat_effects :: "beat_effect option \<Rightarrow> string list \<Rightarrow> string list" where
  "beat_effects e effects =
     (case e of
        None \<Rightarrow> effects
      | Some be \<Rightarrow>
          (let effects1 = (if (tremoloBar be \<or> slide be) \<and> ''s'' \<notin> set effects
                           then effects @ [''s''] else effects)
           in if beat_vibrato be \<and> ''v'' \<notin> set effects1 then effects1 @ [''v''] else effects1))"

definition effect_markers :: "string list \<Rightarrow> string" where
  "effect_markers effects = concat (map (\<lambda>effect. ''('' @ effect @ '')'') effects)"

text \<open>
  The pitches of a multi-note beat: a note whose string index is above the number of
  strings is skipped by the guard \<^verbatim>\<open>if note.string <= len(track.strings)\<close>.
\<close>

fun chord_pitches :: "int list \<Rightarrow> gp_note list \<Rightarrow> py_exception + int list" where
  "chord_pitches strs [] = Inr []"
| "chord_pitches strs (n # ns) =
     (if note_string n \<le> int (length strs) then
        (case py_index strs (note_string n - 1) of
           Inl e \<Rightarrow> Inl e
         | Inr open_pitch \<Rightarrow>
             (case chord_pitches strs ns of
                Inl e \<Rightarrow> Inl e
              | Inr pitches \<Rightarrow> Inr ((open_pitch + note_value n) # pitches)))
      else chord_pitches strs ns)"

definition chord_repr :: "int list \<Rightarrow> string" where
  "chord_repr pitches =
     (case identify_chord pitches of
        Some chord_label \<Rightarrow> ''['' @ chord_label @ '']''
      | None \<Rightarrow> ''['' @ concat (map midi_to_abc (sort pitches)) @ '']'')"

text \<open>
  The pitch of a single note: the open string, or \<^verbatim>\<open>0\<close> when the string index is above
  the number of strings.
\<close>

definition single_pitch :: "int list \<Rightarrow> gp_note \<Rightarrow> py_exception + int" where
  "single_pitch strs n =
     (case (if note_string n \<le> int (length strs) then py_index strs (note_string n - 1) else Inr 0) of
        Inl e \<Rightarrow> Inl e
      | Inr open_pitch \<Rightarrow> Inr (open_pitch + note_value n))"

definition text_token :: "string option \<Rightarrow> string list" where
  "text_token t =
     (case t of
        None \<Rightarrow> []
      | Some text_value \<Rightarrow>
          (if text_value \<noteq> [] \<and> strip text_value \<noteq> []
           then [[CHR 0x22] @ ''('' @ text_value @ '')'' @ [CHR 0x22]] else []))"

text \<open>The tokens one beat appends to \<^verbatim>\<open>bar_content\<close>.\<close>

definition beat_tokens :: "int list \<Rightarrow> beat \<Rightarrow> py_exception + string list" where
  "beat_tokens strs b =
     (if beat_notes b = [] then Inr [''z'' @ duration_suffix (beat_duration b)]
      else if length (beat_notes b) > 1 then
        (case chord_pitches strs (beat_notes b) of
           Inl e \<Rightarrow> Inl e
         | Inr pitches \<Rightarrow>
             Inr (text_token (beat_text b)
                  @ [chord_repr pitches @ duration_suffix (beat_duration b)]))
      else
        (let n = hd (beat_notes b) in
         case single_pitch strs n of
           Inl e \<Rightarrow> Inl e
         | Inr pitch \<Rightarrow>
             Inr (text_token (beat_text b)
                  @ [midi_to_abc pitch
                     @ effect_markers (beat_effects (beat_effect b) (note_effects (note_effect n)))
                     @ duration_suffix (beat_duration b)])))"

fun voice_tokens :: "int list \<Rightarrow> beat list \<Rightarrow> py_exception + string list" where
  "voice_tokens strs [] = Inr []"
| "voice_tokens strs (b # bs) =
     (case beat_tokens strs b of
        Inl e \<Rightarrow> Inl e
      | Inr toks \<Rightarrow>
          (case voice_tokens strs bs of
             Inl e \<Rightarrow> Inl e
           | Inr rest \<Rightarrow> Inr (toks @ rest)))"

section \<open>Measures\<close>

function chunks16 :: "'a list \<Rightarrow> 'a list list" where
  "chunks16 xs = (if xs = [] then [] else take 16 xs # chunks16 (drop 16 xs))"
  by pat_completeness auto
termination
  by (relation "measure length") auto

declare chunks16.simps [simp del]

definition bar_lines :: "string list \<Rightarrow> string list" where
  "bar_lines bar_content =
     (if length bar_content > 16 then
        (let chunks = chunks16 bar_content
         in map (\<lambda>chunk. join '' '' chunk @ '' '' @ [CHR 0x5C]) (butlast chunks)
            @ [join '' '' (last chunks) @ '' |''])
      else [join '' '' bar_content @ '' |''])"

definition section_keywords :: "(string \<times> string list) list" where
  "section_keywords =
     [(''VERSE'', [''verse'', ''v1'', ''v2'', ''v3'', ''v4'', ''verse 1'', ''verse 2'']),
      (''CHORUS'', [''chorus'', ''ch'', ''chor'', ''refrain'']),
      (''BRIDGE'', [''bridge'', ''br'', ''middle eight'']),
      (''INTRO'', [''intro'', ''introduction'']),
      (''OUTRO'', [''outro'', ''ending'', ''coda'', ''end'']),
      (''SOLO'', [''solo'', ''instrumental'', ''inst'', ''guitar solo'', ''bass solo'']),
      (''PRE-CHORUS'', [''pre-chorus'', ''pre chorus'', ''prechorus'', ''pre-verse'']),
      (''INTERLUDE'', [''interlude'', ''break'', ''intermezzo''])]"

definition section_type :: "string \<Rightarrow> string option" where
  "section_type section_text =
     map_option fst
       (find (\<lambda>(type_name, keywords).
                list_ex (\<lambda>keyword. contains (lower keyword) (lower section_text)) keywords)
             section_keywords)"

fun text_lines :: "string option list \<Rightarrow> string list" where
  "text_lines [] = []"
| "text_lines (None # attrs) = text_lines attrs"
| "text_lines (Some text_value # attrs) =
     (if text_value \<noteq> [] \<and> strip text_value \<noteq> [] then
        (let section_text = strip text_value in
         case section_type section_text of
           Some ty \<Rightarrow> [''{SECTION: '' @ ty @ '' - '' @ section_text @ ''}'']
         | None \<Rightarrow> [''{TEXT: '' @ section_text @ ''}''])
      else text_lines attrs)"

definition marker_lines :: "measure_header \<Rightarrow> string list" where
  "marker_lines h =
     (case marker_title h of
        None \<Rightarrow> []
      | Some section_name \<Rightarrow>
          (if section_name \<noteq> [] then [''{SECTION: '' @ section_name @ ''}''] else []))"

definition repeat_lines :: "measure_header \<Rightarrow> string list" where
  "repeat_lines h =
     (if repeatAlternative h \<noteq> 0
      then [''{ALTERNATIVE: '' @ str_int (repeatAlternative h) @ ''}''] else [])
     @ (case hdr_repeat h of
          None \<Rightarrow> []
        | Some rep \<Rightarrow>
            (if closings rep \<noteq> 0 then [''{REPEAT: '' @ str_int (closings rep) @ '' times}'']
             else if rep_close rep then [''{REPEAT END}'']
             else if rep_open rep then [''{REPEAT START}'']
             else []))"

definition header_lines :: "measure_header \<Rightarrow> string list" where
  "header_lines h =
     marker_lines h
     @ text_lines [hdr_text h, hdr_direction h, hdr_annotation h, hdr_comment h]
     @ repeat_lines h"

text \<open>The lines of one measure; a measure without voices emits no bar line.\<close>

definition measure_lines :: "int list \<Rightarrow> measure \<Rightarrow> py_exception + string list" where
  "measure_lines strs m =
     (case voices m of
        [] \<Rightarrow> Inr (header_lines (header m))
      | voice # _ \<Rightarrow>
          (case voice_tokens strs voice of
             Inl e \<Rightarrow> Inl e
           | Inr bar_content \<Rightarrow> Inr (header_lines (header m) @ bar_lines bar_content)))"

fun measures_lines :: "int list \<Rightarrow> measure list \<Rightarrow> py_exception + string list" where
  "measures_lines strs [] = Inr []"
| "measures_lines strs (m # ms) =
     (case measure_lines strs m of
        Inl e \<Rightarrow> Inl e
      | Inr ls \<Rightarrow>
          (case measures_lines strs ms of
             Inl e \<Rightarrow> Inl e
           | Inr rest \<Rightarrow> Inr (ls @ rest)))"

section \<open>Tracks\<close>

definition is_guitar :: "track \<Rightarrow> bool" where
  "is_guitar t =
     ((case instrument t of Some prog \<Rightarrow> 24 \<le> prog \<and> prog \<le> 31 | None \<Rightarrow> False)
      \<or> int (length (strings t)) \<ge> 6)"

definition is_bass :: "track \<Rightarrow> bool" where
  "is_bass t =
     ((case instrument t of Some prog \<Rightarrow> 32 \<le> prog \<and> prog \<le> 39 | None \<Rightarrow> False)
      \<or> (4 \<le> int (length (strings t)) \<and> int (length (strings t)) \<le> 5))"

definition instrument_label :: "track \<Rightarrow> string" where
  "instrument_label t = (if is_bass t then ''Bass'' else ''Guitar'')"

definition display_name :: "track \<Rightarrow> string" where
  "display_name t =
     (if track_name t \<noteq> [] then track_name t else ''Track '' @ str_int (track_number t))"

definition tuning_line :: "int list \<Rightarrow> string" where
  "tuning_line strs =
     ''Tuning: '' @ join '' ''
        (map (\<lambda>p. name_map (p mod 12) @ str_int (p div 12 - 1)) (rev (sort strs)))"

text \<open>What is resolved once per song and read by every track header.\<close>

record metadata =
  md_title :: string
  md_subtitles :: "string list"
  md_composer :: string
  md_artist :: string
  md_album :: string
  md_num :: int
  md_den :: int
  md_tempo :: int
  md_key_text :: string

definition track_header :: "metadata \<Rightarrow> track \<Rightarrow> int \<Rightarrow> string list" where
  "track_header md t idx =
     [''Track: '' @ display_name t @ '' ('' @ instrument_label t @ '')'']
     @ (if getattr (track_description t) [] \<noteq> []
        then [''Description: '' @ getattr (track_description t) []] else [])
     @ (if getattr (track_comments t) [] \<noteq> []
        then [''Comments: '' @ getattr (track_comments t) []] else [])
     @ [tuning_line (strings t),
        ''ABC Notation:'',
        ''X:'' @ str_int idx,
        ''T:'' @ md_title md]
     @ map (\<lambda>subtitle. ''T:'' @ subtitle) (md_subtitles md)
     @ [''C:'' @ (if md_composer md \<noteq> ''Unknown Composer'' then md_composer md else []),
        ''A:'' @ (if md_artist md \<noteq> ''Unknown Artist'' then md_artist md else []),
        ''Z:'' @ (if md_album md \<noteq> ''Unknown Album'' then md_album md else []),
        ''N:'' @ display_name t @ '' ('' @ instrument_label t @ '')'',
        ''M:'' @ str_int (md_num md) @ ''/'' @ str_int (md_den md),
        ''L:1/16'',
        ''Q:1/4='' @ str_int (md_tempo md),
        ''K:'' @ md_key_text md]"

text \<open>The state the loop over the tracks carries: the lines of \<^verbatim>\<open>output\<close> and \<^verbatim>\<open>tune_index\<close>.\<close>

record emit_state =
  out_lines :: "string list"
  tune_index :: int

definition process_track :: "metadata \<Rightarrow> track \<Rightarrow> emit_state \<Rightarrow> py_exception + emit_state" where
  "process_track md t st =
     (if isPercussionTrack t then Inr st
      else if \<not> (is_guitar t \<or> is_bass t) then Inr st
      else
        (case measures_lines (strings t) (measures t) of
           Inl e \<Rightarrow> Inl e
         | Inr ls \<Rightarrow>
             Inr \<lparr>out_lines = out_lines st @ track_header md t (tune_index st) @ ls @ [[]],
                  tune_index = tune_index st + 1\<rparr>))"

fun process_tracks :: "metadata \<Rightarrow> track list \<Rightarrow> emit_state \<Rightarrow> py_exception + emit_state" where
  "process_tracks md [] st = Inr st"
| "process_tracks md (t # ts) st =
     (case process_track md t st of
        Inl e \<Rightarrow> Inl e
      | Inr st' \<Rightarrow> process_tracks md ts st')"

section \<open>The transcoder\<close>

definition notation_lines :: "string list" where
  "notation_lines =
     [''Custom ABC notation enhancements:'',
      ''- Chords are labeled in brackets (e.g. [C5] for C power chord)'',
      ''- Guitar techniques are noted with separate parentheses:'',
      ''  - **(b)** for a pitch bend'',
      ''  - **(h)** for a harmonic'',
      ''  - **(s)** for a slide between notes'',
      ''  - **(ho)** for a hammer-on'',
      ''  - **(po)** for a pull-off'',
      ''- Song sections are marked with: {SECTION: name}'',
      ''- Lyrics are included as: '' @ [CHR 0x22] @ ''Lyric text'' @ [CHR 0x22, CHR 0x0A]]"

definition song_metadata :: "song \<Rightarrow> string \<Rightarrow> metadata" where
  "song_metadata s key_text =
     \<lparr>md_title = getattr (song_title s) ''Untitled'',
      md_subtitles = getattr (song_subtitles s) [],
      md_composer = getattr (song_composer s) ''Unknown Composer'',
      md_artist = getattr (song_artist s) ''Unknown Artist'',
      md_album = getattr (song_album s) ''Unknown Album'',
      md_num = fst (resolve_time_signature s),
      md_den = snd (resolve_time_signature s),
      md_tempo = tempo s,
      md_key_text = key_text\<rparr>"

definition song_lines :: "song \<Rightarrow> metadata \<Rightarrow> string list" where
  "song_lines s md =
     [''Title: '' @ md_title md]
     @ (if md_artist md \<noteq> ''Unknown Artist'' then [''Artist: '' @ md_artist md] else [])
     @ (if md_album md \<noteq> ''Unknown Album'' then [''Album: '' @ md_album md] else [])
     @ (if md_composer md \<noteq> ''Unknown Composer'' then [''Composer: '' @ md_composer md] else [])
     @ (if getattr (song_copyright s) [] \<noteq> []
        then [''Copyright: '' @ getattr (song_copyright s) []] else [])
     @ (if getattr (song_notice s) [] \<noteq> []
        then [''Notes: '' @ getattr (song_notice s) []] else [])
     @ (if getattr (song_instructions s) [] \<noteq> []
        then [''Instructions: '' @ getattr (song_instructions s) []] else [])
     @ (if md_subtitles md \<noteq> []
        then [''Subtitles: '' @ join '' / '' (md_subtitles md)] else [])
     @ [''Tempo: '' @ str_int (md_tempo md) @ '' BPM'',
        key_line (md_key_text md),
        ''Time Signature: '' @ str_int (md_num md) @ ''/'' @ str_int (md_den md) @ [CHR 0x0A]]"

text \<open>The state before the first track: the preamble, and \<^verbatim>\<open>tune_index = 1\<close>.\<close>

definition initial_state :: "song \<Rightarrow> metadata \<Rightarrow> emit_state" where
  "initial_state s md = \<lparr>out_lines = notation_lines @ song_lines s md, tune_index = 1\<rparr>"

definition process_guitar_pro :: "song \<Rightarrow> py_exception + string" where
  "process_guitar_pro s =
     (case resolve_key (song_key s) of
        Inl e \<Rightarrow> Inl e
      | Inr key_text \<Rightarrow>
          (let md = song_metadata s key_text in
           case process_tracks md (tracks s) (initial_state s md) of
             Inl e \<Rightarrow> Inl e
           | Inr st \<Rightarrow> Inr (join [CHR 0x0A] (out_lines st))))"

section \<open>Reference definitions\<close>

text \<open>
  The behaviour of the transcoder is stated against the definitions of this section, which
  follow the prose description of each component rather than the code.
\<close>

subsection \<open>Durations\<close>


subsection \<open>Pitches\<close>

definition chromatic :: "int \<Rightarrow> bool" where
  "chromatic pc = (pc \<in> {1, 3, 6, 8, 10})"

definition octave_of :: "int \<Rightarrow> int" where
  "octave_of p = p div 12 - 1"

definition letter_upper :: "int \<Rightarrow> char" where
  "letter_upper pc = ''CCDDEFFGGAAB'' ! nat pc"

definition letter_lower :: "int \<Rightarrow> char" where
  "letter_lower pc = ''ccddeffggaab'' ! nat pc"

definition abc_of_pitch :: "int \<Rightarrow> string" where
  "abc_of_pitch p =
     (if chromatic (p mod 12) then ''^'' else [])
     @ (if octave_of p = 4 then [letter_upper (p mod 12)]
        else if octave_of p \<ge> 5
          then letter_lower (p mod 12) # replicate (nat (octave_of p - 5)) (CHR 0x27)
        else letter_upper (p mod 12) # replicate (nat (4 - octave_of p)) CHR '','')"

subsection \<open>Chords\<close>

definition pitch_classes :: "int list \<Rightarrow> int set" where
  "pitch_classes ps = (\<lambda>p. p mod 12) ` set ps"

definition chord_root :: "int list \<Rightarrow> int" where
  "chord_root ps = Min (pitch_classes ps)"

definition interval_set :: "int list \<Rightarrow> int set" where
  "interval_set ps =
     (\<lambda>pc. (pc - chord_root ps) mod 12) ` (pitch_classes ps - {chord_root ps})"

definition chord_table :: "(int set \<times> string) list" where
  "chord_table =
     [({7}, ''5''),
      ({4, 7}, ''maj''), ({3, 7}, ''min''), ({3, 6}, ''dim''),
      ({4, 8}, ''aug''), ({2, 7}, ''sus2''), ({5, 7}, ''sus4''),
      ({4, 7, 10}, ''7''), ({3, 7, 10}, ''min7''), ({4, 7, 11}, ''maj7''),
      ({3, 6, 10}, ''min7b5''), ({3, 6, 9}, ''dim7''), ({4, 7, 9}, ''6''),
      ({3, 7, 9}, ''min6'')]"

definition chord_suffix :: "int set \<Rightarrow> string option" where
  "chord_suffix S = map_option snd (find (\<lambda>(I, s). I = S) chord_table)"

subsection \<open>Tracks\<close>

definition in_range :: "int \<Rightarrow> int \<Rightarrow> int option \<Rightarrow> bool" where
  "in_range lo hi prog = (case prog of Some p \<Rightarrow> lo \<le> p \<and> p \<le> hi | None \<Rightarrow> False)"

definition admitted :: "track \<Rightarrow> bool" where
  "admitted t =
     (\<not> isPercussionTrack t
      \<and> ((in_range 24 31 (instrument t) \<or> 6 \<le> length (strings t))
         \<or> (in_range 32 39 (instrument t)
            \<or> (4 \<le> length (strings t) \<and> length (strings t) \<le> 5))))"

text \<open>The lines of one admitted track under tune index \<open>idx\<close>, and of a run of them.\<close>

definition track_block :: "metadata \<Rightarrow> int \<Rightarrow> track \<Rightarrow> string list" where
  "track_block md idx t =
     (case measures_lines (strings t) (measures t) of
        Inl e \<Rightarrow> []
      | Inr ls \<Rightarrow> track_header md t idx @ ls @ [[]])"

fun track_blocks :: "metadata \<Rightarrow> int \<Rightarrow> track list \<Rightarrow> string list" where
  "track_blocks md idx [] = []"
| "track_blocks md idx (t # ts) = track_block md idx t @ track_blocks md (idx + 1) ts"

definition time_signature_line :: "metadata \<Rightarrow> string" where
  "time_signature_line md = ''M:'' @ str_int (md_num md) @ ''/'' @ str_int (md_den md)"

subsection \<open>Beats\<close>




subsection \<open>Sample songs\<close>

definition quarter :: "duration option" where
  "quarter = Some \<lparr>dur_value = 4, isDotted = False\<rparr>"


definition plain_beat :: "gp_note list \<Rightarrow> string option \<Rightarrow> beat" where
  "plain_beat ns t =
     \<lparr>beat_duration = quarter, beat_notes = ns, beat_effect = None, beat_text = t\<rparr>"

definition plain_header :: "int \<Rightarrow> int \<Rightarrow> measure_header" where
  "plain_header n d =
     \<lparr>ts_numerator = n, ts_denominator_value = d, marker_title = None, hdr_text = None,
      hdr_direction = None, hdr_annotation = None, hdr_comment = None,
      repeatAlternative = 0, hdr_repeat = None\<rparr>"

definition plain_track :: "string \<Rightarrow> bool \<Rightarrow> int option \<Rightarrow> int list \<Rightarrow> measure list \<Rightarrow> track" where
  "plain_track name perc prog strs ms =
     \<lparr>isPercussionTrack = perc, instrument = prog, strings = strs, track_name = name,
      track_number = 1, track_description = None, track_comments = None, measures = ms\<rparr>"

definition plain_song :: "key_info \<Rightarrow> track list \<Rightarrow> song" where
  "plain_song k ts =
     \<lparr>tempo = 120, song_key = k, tracks = ts, song_title = Some ''Song'', song_artist = None,
      song_album = None, song_composer = None, song_copyright = None,
      song_instructions = None, song_notice = None, song_subtitles = None\<rparr>"

definition standard_tuning :: "int list" where
  "standard_tuning = [64, 59, 55, 50, 45, 40]"

definition drums :: track where
  "drums = plain_track ''Drums'' True (Some 0) standard_tuning
             [\<lparr>header = plain_header 3 8, voices = []\<rparr>]"

definition lead :: track where
  "lead = plain_track ''Lead'' False (Some 28) []
            [\<lparr>header = plain_header 4 4, voices = [[plain_beat [] None]]\<rparr>]"

definition piano :: track where
  "piano = plain_track ''Piano'' False (Some 0) [] []"

definition five_string :: track where
  "five_string = plain_track ''Low'' False (Some 90) [43, 38, 33, 28, 23] []"

definition fretless :: track where
  "fretless = plain_track ''Fretless'' False (Some 35) standard_tuning []"

definition tenor :: track where
  "tenor = plain_track ''Tenor'' False (Some 24) [43, 38, 33, 28] []"

definition start :: emit_state where
  "start = \<lparr>out_lines = [], tune_index = 1\<rparr>"

definition sample_md :: metadata where
  "sample_md = song_metadata (plain_song NoKey [drums, lead, piano, five_string]) ''C''"

section \<open>Duration encoding: properties\<close>






section \<open>Pitch encoding: properties\<close>

lemma pitch_class_cases:
  fixes p :: int
  shows "p mod 12 = 0 \<or> p mod 12 = 1 \<or> p mod 12 = 2 \<or> p mod 12 = 3 \<or> p mod 12 = 4
    \<or> p mod 12 = 5 \<or> p mod 12 = 6 \<or> p mod 12 = 7 \<or> p mod 12 = 8 \<or> p mod 12 = 9
    \<or> p mod 12 = 10 \<or> p mod 12 = 11"
  by presburger

lemmas abc_defs = midi_to_abc_def abc_of_pitch_def note_names_def startswith_caret_def
  upper_char_def lower_char_def ascii_lowercase_def ascii_uppercase_def chromatic_def
  octave_of_def letter_upper_def letter_lower_def

lemma note_name_shape:
  "note_names ! nat (p mod 12)
     = (if chromatic (p mod 12) then ''^'' else []) @ [letter_upper (p mod 12)]"
  using pitch_class_cases [of p] by (elim disjE) (simp_all add: abc_defs)

lemma midi_to_abc_eq: "midi_to_abc p = abc_of_pitch p"
  using pitch_class_cases [of p] by (elim disjE) (simp_all add: abc_defs Let_def)

text \<open>
  Claim C3. For every integer pitch the encoder returns a token, with no failure case:
  the entry of the twelve sharp-only names at \<open>p mod 12\<close> is always in range, an accidental
  is written first exactly for the chromatic pitch classes, and with
  \<open>octave = p div 12 - 1\<close> the letter is upper case without marks in octave 4, lower case
  with one apostrophe per octave above 5 from octave 5 on, and upper case with one comma
  per octave below 4 otherwise.
\<close>

theorem midi_to_abc_rule:
  "midi_to_abc p = abc_of_pitch p
   \<and> length note_names = 12 \<and> nat (p mod 12) < length note_names
   \<and> note_names ! nat (p mod 12)
       = (if chromatic (p mod 12) then ''^'' else []) @ [letter_upper (p mod 12)]"
proof -
  have "length note_names = 12" by (simp add: note_names_def)
  moreover have "nat (p mod 12) < length note_names" by (simp add: note_names_def)
  ultimately show ?thesis using midi_to_abc_eq note_name_shape by simp
qed

theorem midi_to_abc_rule_witness:
  "midi_to_abc 61 = ''^C'' \<and> midi_to_abc 85 = [CHR ''^'', CHR ''c'', CHR 0x27]
   \<and> midi_to_abc 40 = ''E,,''"
proof -
  have "abc_of_pitch 61 = ''^C''" by code_simp
  moreover have "abc_of_pitch 85 = [CHR ''^'', CHR ''c'', CHR 0x27]" by code_simp
  moreover have "abc_of_pitch 40 = ''E,,''" by code_simp
  ultimately show ?thesis
    using midi_to_abc_rule [of 61] midi_to_abc_rule [of 85] midi_to_abc_rule [of 40] by simp
qed

section \<open>Chord recognition: properties\<close>

lemma sorted_hd_Min:
  fixes xs :: "int list"
  assumes "sorted xs" "xs \<noteq> []"
  shows "hd xs = Min (set xs)"
proof -
  from assms obtain y ys where xs: "xs = y # ys" by (cases xs) auto
  with assms have "\<forall>z \<in> set xs. y \<le> z" by auto
  then have "Min (set xs) = y" using xs by (intro Min_eqI) auto
  then show ?thesis using xs by simp
qed

lemma sorted_distinct_eq_iff:
  fixes I E :: "int list"
  assumes "sorted I" "distinct I" "sorted E" "distinct E"
  shows "(set E = set I) = (I = E)"
  using assms sorted_distinct_set_unique by blast

text \<open>The cascade of comparisons, on the list of intervals above the root.\<close>

lemma cascade_eq_table:
  fixes I :: "int list"
  assumes s: "sorted I" and d: "distinct I"
  shows "(if length I = 1 then (if I ! 0 = 7 then Some (rn @ ''5'') else None)
          else if length I = 2 \<and> I = [4, 7] then Some (rn @ ''maj'')
          else if length I = 2 \<and> I = [3, 7] then Some (rn @ ''min'')
          else if length I = 2 \<and> I = [3, 6] then Some (rn @ ''dim'')
          else if length I = 2 \<and> I = [4, 8] then Some (rn @ ''aug'')
          else if length I = 2 \<and> I = [2, 7] then Some (rn @ ''sus2'')
          else if length I = 2 \<and> I = [5, 7] then Some (rn @ ''sus4'')
          else if length I = 3 \<and> I = [4, 7, 10] then Some (rn @ ''7'')
          else if length I = 3 \<and> I = [3, 7, 10] then Some (rn @ ''min7'')
          else if length I = 3 \<and> I = [4, 7, 11] then Some (rn @ ''maj7'')
          else if length I = 3 \<and> I = [3, 6, 10] then Some (rn @ ''min7b5'')
          else if length I = 3 \<and> I = [3, 6, 9] then Some (rn @ ''dim7'')
          else if length I = 3 \<and> I = [4, 7, 9] then Some (rn @ ''6'')
          else if length I = 3 \<and> I = [3, 7, 9] then Some (rn @ ''min6'')
          else None)
         = map_option (\<lambda>s. rn @ s) (chord_suffix (set I))"
proof -
  have e: "\<And>E. sorted E \<Longrightarrow> distinct E \<Longrightarrow> (set E = set I) = (I = E)"
    using s d by (rule sorted_distinct_eq_iff)
  have e1: "({7} = set I) = (I = [7])" using e [of "[7]"] by simp
  have e2: "({4, 7} = set I) = (I = [4, 7])" using e [of "[4, 7]"] by simp
  have e3: "({3, 7} = set I) = (I = [3, 7])" using e [of "[3, 7]"] by simp
  have e4: "({3, 6} = set I) = (I = [3, 6])" using e [of "[3, 6]"] by simp
  have e5: "({4, 8} = set I) = (I = [4, 8])" using e [of "[4, 8]"] by simp
  have e6: "({2, 7} = set I) = (I = [2, 7])" using e [of "[2, 7]"] by simp
  have e7: "({5, 7} = set I) = (I = [5, 7])" using e [of "[5, 7]"] by simp
  have e8: "({4, 7, 10} = set I) = (I = [4, 7, 10])" using e [of "[4, 7, 10]"] by simp
  have e9: "({3, 7, 10} = set I) = (I = [3, 7, 10])" using e [of "[3, 7, 10]"] by simp
  have e10: "({4, 7, 11} = set I) = (I = [4, 7, 11])" using e [of "[4, 7, 11]"] by simp
  have e11: "({3, 6, 10} = set I) = (I = [3, 6, 10])" using e [of "[3, 6, 10]"] by simp
  have e12: "({3, 6, 9} = set I) = (I = [3, 6, 9])" using e [of "[3, 6, 9]"] by simp
  have e13: "({4, 7, 9} = set I) = (I = [4, 7, 9])" using e [of "[4, 7, 9]"] by simp
  have e14: "({3, 7, 9} = set I) = (I = [3, 7, 9])" using e [of "[3, 7, 9]"] by simp
  have t: "chord_suffix (set I) =
      (if I = [7] then Some ''5'' else if I = [4, 7] then Some ''maj''
       else if I = [3, 7] then Some ''min'' else if I = [3, 6] then Some ''dim''
       else if I = [4, 8] then Some ''aug'' else if I = [2, 7] then Some ''sus2''
       else if I = [5, 7] then Some ''sus4'' else if I = [4, 7, 10] then Some ''7''
       else if I = [3, 7, 10] then Some ''min7'' else if I = [4, 7, 11] then Some ''maj7''
       else if I = [3, 6, 10] then Some ''min7b5'' else if I = [3, 6, 9] then Some ''dim7''
       else if I = [4, 7, 9] then Some ''6'' else if I = [3, 7, 9] then Some ''min6''
       else None)"
    unfolding chord_suffix_def chord_table_def
    by (simp only: find.simps prod.case e1 e2 e3 e4 e5 e6 e7 e8 e9 e10 e11 e12 e13 e14
          option.map if_distrib [of "map_option snd"] snd_conv)
  show ?thesis
  proof (cases I)
    case Nil
    then show ?thesis unfolding t by simp
  next
    case (Cons a I1)
    show ?thesis
    proof (cases I1)
      case Nil
      with Cons show ?thesis unfolding t by simp
    next
      case (Cons b I2)
      note c2 = this
      show ?thesis
      proof (cases I2)
        case Nil
        with \<open>I = a # I1\<close> c2 show ?thesis unfolding t by simp
      next
        case (Cons c I3)
        with \<open>I = a # I1\<close> c2 show ?thesis unfolding t by (cases I3) simp_all
      qed
    qed
  qed
qed

lemma sorted_shift: "sorted xs \<Longrightarrow> sorted (map (\<lambda>pc. pc - (r::int)) xs)"
  by (induction xs) auto

lemma identify_chord_table:
  "identify_chord ps
     = map_option (\<lambda>s. name_map (chord_root ps) @ s) (chord_suffix (interval_set ps))
   \<and> (ps \<noteq> [] \<longrightarrow> card (pitch_classes ps) = Suc (card (interval_set ps)))"
proof -
  define pcs where "pcs = sort (remdups (map (\<lambda>p. p mod 12) ps))"
  have set_pcs: "set pcs = pitch_classes ps" by (simp add: pcs_def pitch_classes_def)
  have sorted_pcs: "sorted pcs" by (simp add: pcs_def)
  have distinct_pcs: "distinct pcs" by (simp add: pcs_def)
  show ?thesis
  proof (cases "pcs = []")
    case True
    then have "pitch_classes ps = {}" using set_pcs by simp
    then have "interval_set ps = {}" by (simp add: interval_set_def)
    moreover have "chord_suffix {} = None"
      by (simp add: chord_suffix_def chord_table_def)
    moreover have "identify_chord ps = None"
      using True by (simp add: identify_chord_def pcs_def)
    moreover have "ps = []"
      using \<open>pitch_classes ps = {}\<close> by (simp add: pitch_classes_def)
    ultimately show ?thesis by simp
  next
    case False
    from False obtain root rest where pcs: "pcs = root # rest" by (cases pcs) auto
    define I where "I = map (\<lambda>pc. pc - root) rest"
    have root: "root = chord_root ps"
      using sorted_hd_Min [OF sorted_pcs False] unfolding chord_root_def set_pcs [symmetric]
      by (simp add: pcs)
    have range: "\<forall>pc \<in> set pcs. 0 \<le> pc \<and> pc < 12"
      by (auto simp: set_pcs pitch_classes_def)
    have low: "\<forall>pc \<in> set rest. root \<le> pc"
      using sorted_pcs by (simp add: pcs)
    have root_range: "0 \<le> root" "root < 12"
      using range by (simp_all add: pcs)
    have shift_one: "(pc - root) mod 12 = pc - root" if "pc \<in> set rest" for pc
    proof -
      from that range low root_range have "0 \<le> pc - root" "pc - root < 12"
        by (auto simp: pcs)
      then show ?thesis by simp
    qed
    have shift: "map (\<lambda>pc. (pc - root) mod 12) pcs = 0 # I"
      using shift_one by (simp add: pcs I_def)
    have sorted_I: "sorted I"
    proof -
      have "sorted rest" using sorted_pcs by (simp add: pcs)
      then show ?thesis unfolding I_def by (rule sorted_shift)
    qed
    have low_I: "\<forall>i \<in> set I. 0 \<le> i"
      using low by (auto simp: I_def)
    have sorted_rel: "sorted (0 # I)"
      using sorted_I low_I by simp
    have rel: "sort (map (\<lambda>pc. (pc - root) mod 12) pcs) = 0 # I"
      unfolding shift using sorted_rel by (rule sorted_sort_id)
    have inj: "inj_on (\<lambda>pc. pc - root) (set rest)"
      by (rule inj_onI) simp
    have distinct_I: "distinct I"
      using distinct_pcs inj by (simp add: pcs I_def distinct_map)
    have "set rest = pitch_classes ps - {chord_root ps}"
      using distinct_pcs set_pcs root by (auto simp: pcs)
    then have set_I: "set I = interval_set ps"
      using shift_one unfolding interval_set_def I_def root [symmetric] by auto
    have "identify_chord ps =
        (if length I = 1 then (if I ! 0 = 7 then Some (name_map root @ ''5'') else None)
          else if length I = 2 \<and> I = [4, 7] then Some (name_map root @ ''maj'')
          else if length I = 2 \<and> I = [3, 7] then Some (name_map root @ ''min'')
          else if length I = 2 \<and> I = [3, 6] then Some (name_map root @ ''dim'')
          else if length I = 2 \<and> I = [4, 8] then Some (name_map root @ ''aug'')
          else if length I = 2 \<and> I = [2, 7] then Some (name_map root @ ''sus2'')
          else if length I = 2 \<and> I = [5, 7] then Some (name_map root @ ''sus4'')
          else if length I = 3 \<and> I = [4, 7, 10] then Some (name_map root @ ''7'')
          else if length I = 3 \<and> I = [3, 7, 10] then Some (name_map root @ ''min7'')
          else if length I = 3 \<and> I = [4, 7, 11] then Some (name_map root @ ''maj7'')
          else if length I = 3 \<and> I = [3, 6, 10] then Some (name_map root @ ''min7b5'')
          else if length I = 3 \<and> I = [3, 6, 9] then Some (name_map root @ ''dim7'')
          else if length I = 3 \<and> I = [4, 7, 9] then Some (name_map root @ ''6'')
          else if length I = 3 \<and> I = [3, 7, 9] then Some (name_map root @ ''min6'')
          else None)"
      using False rel
      unfolding identify_chord_def pcs_def [symmetric] Let_def
      by (simp add: pcs)
    also have "\<dots> = map_option (\<lambda>s. name_map root @ s) (chord_suffix (set I))"
      by (rule cascade_eq_table [OF sorted_I distinct_I])
    finally have table: "identify_chord ps
        = map_option (\<lambda>s. name_map (chord_root ps) @ s) (chord_suffix (interval_set ps))"
      by (simp add: set_I root)
    have "card (pitch_classes ps) = length pcs"
      using distinct_pcs set_pcs distinct_card by metis
    moreover have "card (interval_set ps) = length I"
      using distinct_I set_I distinct_card by metis
    moreover have "length pcs = Suc (length I)" by (simp add: pcs I_def)
    ultimately show ?thesis using table by simp
  qed
qed

text \<open>
  Claim C2. The recognizer reduces the pitches to their pitch classes, takes the lowest
  class as root and looks the set of the other classes' intervals above the root up in the
  table: \<open>{7}\<close> gives the suffix \<open>5\<close>, the six two-interval sets give
  maj, min, dim, aug, sus2 and sus4, the seven three-interval sets give 7, min7, maj7,
  min7b5, dim7, 6 and min6, and every other set gives no label. The number of pitch
  classes is one more than the number of intervals. \<open>{60,64,67}\<close> is Cmaj,
  \<open>{60,63,67}\<close> is Cmin, \<open>{60,67}\<close> is C5 and \<open>{60,61,67}\<close> has no label.
\<close>

theorem identify_chord_rule:
  "identify_chord ps
     = map_option (\<lambda>s. name_map (chord_root ps) @ s) (chord_suffix (interval_set ps))
   \<and> (ps \<noteq> [] \<longrightarrow> card (pitch_classes ps) = Suc (card (interval_set ps)))
   \<and> identify_chord [60, 64, 67] = Some ''Cmaj''
   \<and> identify_chord [60, 63, 67] = Some ''Cmin''
   \<and> identify_chord [60, 67] = Some ''C5''
   \<and> identify_chord [60, 61, 67] = None"
proof -
  have "identify_chord [60, 64, 67] = Some ''Cmaj''" by code_simp
  moreover have "identify_chord [60, 63, 67] = Some ''Cmin''" by code_simp
  moreover have "identify_chord [60, 67] = Some ''C5''" by code_simp
  moreover have "identify_chord [60, 61, 67] = None" by code_simp
  ultimately show ?thesis using identify_chord_table [of ps] by simp
qed

theorem identify_chord_rule_witness:
  "[62, 66, 69, 74] \<noteq> ([] :: int list)
   \<and> identify_chord [62, 66, 69, 74] = Some ''Dmaj''
   \<and> card (pitch_classes [62, 66, 69, 74]) = 3"
proof -
  have a: "map_option (\<lambda>s. name_map (chord_root [62, 66, 69, 74]) @ s)
             (chord_suffix (interval_set [62, 66, 69, 74])) = Some ''Dmaj''"
    by code_simp
  have b: "Suc (card (interval_set [62, 66, 69, 74])) = 3" by code_simp
  from identify_chord_rule [of "[62, 66, 69, 74]"] a b show ?thesis by simp
qed

section \<open>Tracks: properties\<close>

lemma admitted_iff: "admitted t \<longleftrightarrow> \<not> isPercussionTrack t \<and> (is_guitar t \<or> is_bass t)"
  by (auto simp: admitted_def is_guitar_def is_bass_def in_range_def split: option.splits)

lemma process_track_skipped: "\<not> admitted t \<Longrightarrow> process_track md t st = Inr st"
  by (auto simp: admitted_iff process_track_def)

lemma process_track_admitted:
  assumes "admitted t" "process_track md t st = Inr st'"
  shows "tune_index st' = tune_index st + 1"
    and "out_lines st' = out_lines st @ track_block md (tune_index st) t"
    and "\<exists>ls. measures_lines (strings t) (measures t) = Inr ls
           \<and> track_block md (tune_index st) t = track_header md t (tune_index st) @ ls @ [[]]"
  using assms
  by (auto simp: admitted_iff process_track_def track_block_def split: sum.splits)

lemma process_tracks_blocks:
  "process_tracks md ts st = Inr st' \<Longrightarrow>
     tune_index st' = tune_index st + int (length (filter admitted ts))
     \<and> out_lines st' = out_lines st @ track_blocks md (tune_index st) (filter admitted ts)"
proof (induction ts arbitrary: st)
  case Nil
  then show ?case by simp
next
  case (Cons t ts)
  from Cons.prems obtain st1 where
    t: "process_track md t st = Inr st1" and ts: "process_tracks md ts st1 = Inr st'"
    by (auto split: sum.splits)
  note ih = Cons.IH [OF ts]
  show ?case
  proof (cases "admitted t")
    case True
    from process_track_admitted(1,2) [OF True t] ih True show ?thesis by simp
  next
    case False
    with t have "st1 = st" by (simp add: process_track_skipped)
    with ih False show ?thesis by simp
  qed
qed

lemma header_has_index: "''X:'' @ str_int idx \<in> set (track_header md t idx)"
  by (simp add: track_header_def)

lemma header_has_time_signature: "time_signature_line md \<in> set (track_header md t idx)"
  by (simp add: track_header_def time_signature_line_def)

lemma header_ignores_measures:
  "track_header md (t\<lparr>measures := ms\<rparr>) idx = track_header md t idx"
  by (simp add: track_header_def display_name_def instrument_label_def is_bass_def)

lemma blocks_have_time_signature:
  "t \<in> set ts \<Longrightarrow> measures_lines (strings t) (measures t) = Inr ls \<Longrightarrow>
     \<exists>idx pre post. track_blocks md i ts = pre @ track_header md t idx @ ls @ [[]] @ post"
proof (induction ts arbitrary: i)
  case Nil
  then show ?case by simp
next
  case (Cons a ts)
  show ?case
  proof (cases "a = t")
    case True
    with Cons.prems have "track_blocks md i (a # ts)
        = [] @ track_header md t i @ ls @ [[]] @ track_blocks md (i + 1) ts"
      by (simp add: track_block_def)
    then show ?thesis by blast
  next
    case False
    with Cons.prems have "t \<in> set ts" by simp
    from Cons.IH [OF this Cons.prems(2)] obtain idx pre post where
      "track_blocks md (i + 1) ts = pre @ track_header md t idx @ ls @ [[]] @ post" by blast
    then have "track_blocks md i (a # ts)
        = (track_block md i a @ pre) @ track_header md t idx @ ls @ [[]] @ post" by simp
    then show ?thesis by blast
  qed
qed

lemma header_first_line:
  "hd (track_header md t idx) = ''Track: '' @ display_name t @ '' ('' @ instrument_label t @ '')''"
  by (simp add: track_header_def)

lemma header_has_note_line:
  "''N:'' @ display_name t @ '' ('' @ instrument_label t @ '')'' \<in> set (track_header md t idx)"
  by (simp add: track_header_def)

lemma track_header_nonempty: "track_header md t idx \<noteq> []"
  by (simp add: track_header_def)

text \<open>
  Claim C5. A track that is percussion, or that has neither a guitar-range or bass-range
  program number nor four or more strings, leaves the output and the tune index as they
  are. An admitted track appends its block of lines, which is not empty and carries the
  current tune index in its \<open>X:\<close> line, and advances the index by one. Over the
  whole list of tracks the index, which starts at 1, grows by the number of admitted
  tracks, and the blocks follow each other in the order of the tracks.
\<close>

theorem track_admission:
  "(\<not> admitted t \<longrightarrow> process_track md t st = Inr st)
   \<and> (admitted u \<longrightarrow> process_track md u st = Inr st1 \<longrightarrow>
        tune_index st1 = tune_index st + 1
        \<and> out_lines st1 = out_lines st @ track_block md (tune_index st) u
        \<and> track_block md (tune_index st) u \<noteq> []
        \<and> ''X:'' @ str_int (tune_index st) \<in> set (track_block md (tune_index st) u))
   \<and> (process_tracks md ts st = Inr st2 \<longrightarrow>
        tune_index st2 = tune_index st + int (length (filter admitted ts))
        \<and> out_lines st2 = out_lines st @ track_blocks md (tune_index st) (filter admitted ts))
   \<and> tune_index (initial_state s md) = 1"
proof -
  have a: "\<not> admitted t \<longrightarrow> process_track md t st = Inr st"
    by (simp add: process_track_skipped)
  have b: "admitted u \<longrightarrow> process_track md u st = Inr st1 \<longrightarrow>
        tune_index st1 = tune_index st + 1
        \<and> out_lines st1 = out_lines st @ track_block md (tune_index st) u
        \<and> track_block md (tune_index st) u \<noteq> []
        \<and> ''X:'' @ str_int (tune_index st) \<in> set (track_block md (tune_index st) u)"
  proof (intro impI)
    assume u: "admitted u" and p: "process_track md u st = Inr st1"
    from process_track_admitted(3) [OF u p] obtain ls where
      blk: "track_block md (tune_index st) u = track_header md u (tune_index st) @ ls @ [[]]"
      by blast
    have "''X:'' @ str_int (tune_index st) \<in> set (track_block md (tune_index st) u)"
      unfolding blk using header_has_index [of "tune_index st" md u] by simp
    moreover have "track_block md (tune_index st) u \<noteq> []"
      unfolding blk by simp
    ultimately show "tune_index st1 = tune_index st + 1
        \<and> out_lines st1 = out_lines st @ track_block md (tune_index st) u
        \<and> track_block md (tune_index st) u \<noteq> []
        \<and> ''X:'' @ str_int (tune_index st) \<in> set (track_block md (tune_index st) u)"
      using process_track_admitted(1,2) [OF u p] by simp
  qed
  have c: "process_tracks md ts st = Inr st2 \<longrightarrow>
        tune_index st2 = tune_index st + int (length (filter admitted ts))
        \<and> out_lines st2 = out_lines st @ track_blocks md (tune_index st) (filter admitted ts)"
    using process_tracks_blocks by blast
  have d: "tune_index (initial_state s md) = 1" by (simp add: initial_state_def)
  from a b c d show ?thesis by blast
qed

theorem track_admission_witness:
  "\<not> admitted drums \<and> \<not> admitted piano \<and> admitted lead \<and> admitted five_string
   \<and> process_track sample_md drums start = Inr start
   \<and> process_track sample_md lead start
       = Inr \<lparr>out_lines = track_block sample_md 1 lead, tune_index = 2\<rparr>
   \<and> ''X:1'' \<in> set (track_block sample_md 1 lead)
   \<and> process_tracks sample_md [drums, lead, piano, five_string] start
       = Inr \<lparr>out_lines = track_block sample_md 1 lead @ track_block sample_md 2 five_string,
              tune_index = 3\<rparr>"
proof -
  have n1: "\<not> admitted drums" and n2: "\<not> admitted piano"
    and y1: "admitted lead" and y2: "admitted five_string"
    by code_simp+
  have p: "process_track sample_md lead start
       = Inr \<lparr>out_lines = track_block sample_md 1 lead, tune_index = 2\<rparr>"
    by code_simp
  have q: "process_tracks sample_md [drums, lead, piano, five_string] start
       = Inr \<lparr>out_lines = track_block sample_md 1 lead @ track_block sample_md 2 five_string,
              tune_index = 3\<rparr>"
    by code_simp
  have i: "tune_index start = 1" by (simp add: start_def)
  have x: "str_int 1 = ''1''" by code_simp
  note inst = track_admission [of drums sample_md start lead
      "\<lparr>out_lines = track_block sample_md 1 lead, tune_index = 2\<rparr>"
      "[drums, lead, piano, five_string]"
      "\<lparr>out_lines = track_block sample_md 1 lead @ track_block sample_md 2 five_string,
        tune_index = 3\<rparr>"]
  from inst n1 have "process_track sample_md drums start = Inr start" by blast
  moreover from inst y1 p i x have "''X:1'' \<in> set (track_block sample_md 1 lead)" by simp
  ultimately show ?thesis using n1 n2 y1 y2 p q by simp
qed

lemma instrument_label_bass:
  "instrument_label t = ''Bass''
     \<longleftrightarrow> in_range 32 39 (instrument t) \<or> (4 \<le> length (strings t) \<and> length (strings t) \<le> 5)"
  by (auto simp: instrument_label_def is_bass_def in_range_def split: option.splits)

lemma instrument_label_guitar:
  "instrument_label t = ''Guitar''
     \<longleftrightarrow> \<not> (in_range 32 39 (instrument t) \<or> (4 \<le> length (strings t) \<and> length (strings t) \<le> 5))"
  by (auto simp: instrument_label_def is_bass_def in_range_def split: option.splits)

text \<open>
  Claim C6, as stated, fails: a track whose program number is in the guitar range 24-31
  and which declares four strings is admitted and labelled \<open>(Bass)\<close>, so the program
  number does not take precedence over the string count there.
\<close>

theorem guitar_program_labelled_bass_counterexample:
  "admitted tenor \<and> instrument tenor = Some 24 \<and> length (strings tenor) = 4
   \<and> instrument_label tenor = ''Bass''
   \<and> hd (track_header sample_md tenor 1) = ''Track: Tenor (Bass)''
   \<and> ''N:Tenor (Bass)'' \<in> set (track_header sample_md tenor 1)"
  by code_simp

text \<open>
  Claim C6, amended. A program number in the bass range 32-39 makes the header label the
  track \<open>(Bass)\<close> whatever its string count. A program number in the guitar range 24-31
  makes it \<open>(Guitar)\<close> exactly when the track does not declare four or five strings; with
  four or five strings it is \<open>(Bass)\<close>. When the program number is absent or in neither
  range, an admitted track is \<open>(Bass)\<close> with four or five strings and \<open>(Guitar)\<close> with six
  or more. The label stands in the first line and in the \<open>N:\<close> line of the track header.
\<close>

theorem instrument_label_rule:
  "(in_range 32 39 (instrument t) \<longrightarrow> instrument_label t = ''Bass'')
   \<and> (in_range 24 31 (instrument u) \<longrightarrow>
        (instrument_label u = ''Guitar'')
          = (\<not> (4 \<le> length (strings u) \<and> length (strings u) \<le> 5))
        \<and> (instrument_label u = ''Bass'')
          = (4 \<le> length (strings u) \<and> length (strings u) \<le> 5))
   \<and> (\<not> in_range 24 31 (instrument v) \<longrightarrow> \<not> in_range 32 39 (instrument v) \<longrightarrow> admitted v \<longrightarrow>
        (instrument_label v = ''Bass'')
          = (4 \<le> length (strings v) \<and> length (strings v) \<le> 5)
        \<and> (instrument_label v = ''Guitar'') = (6 \<le> length (strings v)))
   \<and> hd (track_header md w idx)
       = ''Track: '' @ display_name w @ '' ('' @ instrument_label w @ '')''
   \<and> ''N:'' @ display_name w @ '' ('' @ instrument_label w @ '')'' \<in> set (track_header md w idx)"
proof -
  have a: "in_range 32 39 (instrument t) \<longrightarrow> instrument_label t = ''Bass''"
    by (simp add: instrument_label_bass)
  have b: "in_range 24 31 (instrument u) \<longrightarrow>
        (instrument_label u = ''Guitar'')
          = (\<not> (4 \<le> length (strings u) \<and> length (strings u) \<le> 5))
        \<and> (instrument_label u = ''Bass'')
          = (4 \<le> length (strings u) \<and> length (strings u) \<le> 5)"
    unfolding instrument_label_bass instrument_label_guitar
    by (auto simp: in_range_def split: option.splits)
  have c: "\<not> in_range 24 31 (instrument v) \<longrightarrow> \<not> in_range 32 39 (instrument v) \<longrightarrow> admitted v \<longrightarrow>
        (instrument_label v = ''Bass'')
          = (4 \<le> length (strings v) \<and> length (strings v) \<le> 5)
        \<and> (instrument_label v = ''Guitar'') = (6 \<le> length (strings v))"
    unfolding instrument_label_bass instrument_label_guitar
    by (auto simp: admitted_def)
  from a b c header_first_line [of md w idx] header_has_note_line [of w md idx]
  show ?thesis by blast
qed

theorem instrument_label_rule_witness:
  "in_range 32 39 (instrument fretless) \<and> length (strings fretless) = 6
   \<and> instrument_label fretless = ''Bass''
   \<and> in_range 24 31 (instrument lead) \<and> instrument_label lead = ''Guitar''
   \<and> \<not> in_range 24 31 (instrument five_string) \<and> \<not> in_range 32 39 (instrument five_string)
   \<and> admitted five_string \<and> instrument_label five_string = ''Bass''"
proof -
  have f: "in_range 32 39 (instrument fretless)" and fl: "length (strings fretless) = 6"
    and l: "in_range 24 31 (instrument lead)" and ll: "length (strings lead) = 0"
    and b1: "\<not> in_range 24 31 (instrument five_string)"
    and b2: "\<not> in_range 32 39 (instrument five_string)"
    and b3: "admitted five_string" and bl: "length (strings five_string) = 5"
    by code_simp+
  note inst = instrument_label_rule [of fretless lead five_string sample_md lead 1]
  from inst f have "instrument_label fretless = ''Bass''" by blast
  moreover from inst l ll have "instrument_label lead = ''Guitar''" by simp
  moreover from inst b1 b2 b3 bl have "instrument_label five_string = ''Bass''" by simp
  ultimately show ?thesis using f fl l b1 b2 b3 by simp
qed

lemma resolve_time_signature_cases:
  "resolve_time_signature s =
     (if tracks s = [] \<or> measures (hd (tracks s)) = [] then (4, 4)
      else (ts_numerator (header (hd (measures (hd (tracks s))))),
            ts_denominator_value (header (hd (measures (hd (tracks s)))))))"
  by (simp add: resolve_time_signature_def split: list.splits)

lemma metadata_time_signature:
  "time_signature_line (song_metadata s key_text)
     = ''M:'' @ str_int (fst (resolve_time_signature s)) @ ''/''
       @ str_int (snd (resolve_time_signature s))"
  by (simp add: time_signature_line_def song_metadata_def)

lemma process_guitar_pro_blocks:
  assumes "process_guitar_pro s = Inr text"
  shows "\<exists>key_text (st :: emit_state).
           resolve_key (song_key s) = Inr key_text
           \<and> text = join [CHR 0x0A] (out_lines st)
           \<and> out_lines st
               = out_lines (initial_state s (song_metadata s key_text))
                 @ track_blocks (song_metadata s key_text) 1 (filter admitted (tracks s))"
proof -
  from assms obtain key_text st where
    k: "resolve_key (song_key s) = Inr key_text"
    and p: "process_tracks (song_metadata s key_text) (tracks s)
              (initial_state s (song_metadata s key_text)) = Inr st"
    and t: "text = join [CHR 0x0A] (out_lines st)"
    by (auto simp: process_guitar_pro_def Let_def split: sum.splits)
  from process_tracks_blocks [OF p] have
    "out_lines st = out_lines (initial_state s (song_metadata s key_text))
       @ track_blocks (song_metadata s key_text) 1 (filter admitted (tracks s))"
    by (simp add: initial_state_def)
  with k t show ?thesis
    by (intro exI [of _ key_text] exI [of _ st] conjI)
qed

text \<open>
  Claim C7. The time signature is read from the header of the first measure of the first
  track and is \<open>(4, 4)\<close> when the song has no track or its first track has no measure.
  It is resolved once, into the metadata every track header reads: the \<open>M:\<close> line of
  an admitted track is built from that pair and stands in the lines the track appends,
  the header of a track does not depend on the track's own measures, and the text the
  transcoder returns joins the preamble and the blocks of the admitted tracks, each of
  which holds the header of its track under that metadata.
\<close>

theorem time_signature_rule:
  "resolve_time_signature s =
     (if tracks s = [] \<or> measures (hd (tracks s)) = [] then (4, 4)
      else (ts_numerator (header (hd (measures (hd (tracks s))))),
            ts_denominator_value (header (hd (measures (hd (tracks s)))))))
   \<and> time_signature_line (song_metadata s key_text)
       = ''M:'' @ str_int (fst (resolve_time_signature s)) @ ''/''
         @ str_int (snd (resolve_time_signature s))
   \<and> (admitted t \<longrightarrow> process_track (song_metadata s key_text) t st = Inr st1 \<longrightarrow>
        (\<exists>ls. out_lines st1
                = out_lines st @ track_header (song_metadata s key_text) t (tune_index st)
                  @ ls @ [[]])
        \<and> time_signature_line (song_metadata s key_text)
            \<in> set (track_header (song_metadata s key_text) t (tune_index st)))
   \<and> track_header md (t\<lparr>measures := ms\<rparr>) idx = track_header md t idx
   \<and> (process_guitar_pro s = Inr text \<longrightarrow>
        (\<exists>k (st2 :: emit_state). resolve_key (song_key s) = Inr k
           \<and> text = join [CHR 0x0A] (out_lines st2)
           \<and> out_lines st2
               = out_lines (initial_state s (song_metadata s k))
                 @ track_blocks (song_metadata s k) 1 (filter admitted (tracks s))))
   \<and> (u \<in> set ts \<longrightarrow> measures_lines (strings u) (measures u) = Inr body \<longrightarrow>
        (\<exists>i pre post.
           track_blocks md j ts = pre @ track_header md u i @ body @ [[]] @ post))"
proof -
  have c: "admitted t \<longrightarrow> process_track (song_metadata s key_text) t st = Inr st1 \<longrightarrow>
        (\<exists>ls. out_lines st1
                = out_lines st @ track_header (song_metadata s key_text) t (tune_index st)
                  @ ls @ [[]])
        \<and> time_signature_line (song_metadata s key_text)
            \<in> set (track_header (song_metadata s key_text) t (tune_index st))"
  proof (intro impI)
    assume a: "admitted t" and p: "process_track (song_metadata s key_text) t st = Inr st1"
    from process_track_admitted(2,3) [OF a p]
    have "\<exists>ls. out_lines st1
                = out_lines st @ track_header (song_metadata s key_text) t (tune_index st)
                  @ ls @ [[]]"
      by auto
    then show "(\<exists>ls. out_lines st1
                = out_lines st @ track_header (song_metadata s key_text) t (tune_index st)
                  @ ls @ [[]])
        \<and> time_signature_line (song_metadata s key_text)
            \<in> set (track_header (song_metadata s key_text) t (tune_index st))"
      using header_has_time_signature by blast
  qed
  have e: "process_guitar_pro s = Inr text \<longrightarrow>
        (\<exists>k (st2 :: emit_state). resolve_key (song_key s) = Inr k
           \<and> text = join [CHR 0x0A] (out_lines st2)
           \<and> out_lines st2
               = out_lines (initial_state s (song_metadata s k))
                 @ track_blocks (song_metadata s k) 1 (filter admitted (tracks s)))"
    using process_guitar_pro_blocks by blast
  have f: "u \<in> set ts \<longrightarrow> measures_lines (strings u) (measures u) = Inr body \<longrightarrow>
        (\<exists>i pre post.
           track_blocks md j ts = pre @ track_header md u i @ body @ [[]] @ post)"
    using blocks_have_time_signature by blast
  from resolve_time_signature_cases [of s] metadata_time_signature [of s key_text] c
    header_ignores_measures [of md ms t idx] e f
  show ?thesis by blast
qed

theorem time_signature_rule_witness:
  "resolve_time_signature (plain_song NoKey [drums, lead, piano, five_string]) = (3, 8)
   \<and> resolve_time_signature (plain_song NoKey []) = (4, 4)
   \<and> resolve_time_signature (plain_song NoKey [piano, lead]) = (4, 4)
   \<and> admitted lead
   \<and> process_track sample_md lead start
       = Inr \<lparr>out_lines = track_block sample_md 1 lead, tune_index = 2\<rparr>
   \<and> ''M:3/8'' \<in> set (track_header sample_md lead 1)"
proof -
  have r: "resolve_time_signature (plain_song NoKey [drums, lead, piano, five_string]) = (3, 8)"
    and r0: "resolve_time_signature (plain_song NoKey []) = (4, 4)"
    and r1: "resolve_time_signature (plain_song NoKey [piano, lead]) = (4, 4)"
    and y: "admitted lead"
    by code_simp+
  have p: "process_track sample_md lead start
       = Inr \<lparr>out_lines = track_block sample_md 1 lead, tune_index = 2\<rparr>"
    by code_simp
  have i: "tune_index start = 1" by (simp add: start_def)
  have m: "time_signature_line sample_md = ''M:3/8''" by code_simp
  from time_signature_rule [of "plain_song NoKey [drums, lead, piano, five_string]" "''C''"
      lead start "\<lparr>out_lines = track_block sample_md 1 lead, tune_index = 2\<rparr>"]
    y p [unfolded sample_md_def]
  have "time_signature_line sample_md \<in> set (track_header sample_md lead (tune_index start))"
    unfolding sample_md_def by blast
  then have "''M:3/8'' \<in> set (track_header sample_md lead 1)"
    by (simp only: m i)
  with r r0 r1 y p show ?thesis by simp
qed

section \<open>Beats and bar lines: properties\<close>
























section \<open>Key resolution: properties\<close>

lemma resolve_key_absent: "resolve_key NoKey = Inr ''C'' \<and> key_line ''C'' = ''Key: C major''"
  by (simp add: resolve_key_def key_line_def)

lemma resolve_key_pairs:
  "resolve_key (KeyPair 0 0) = Inr ''C'' \<and> resolve_key (KeyPair 3 0) = Inr ''A''
   \<and> resolve_key (KeyPair 2 1) = Inr ''Bm'' \<and> resolve_key (KeyPair (- 7) 0) = Inr ''Cb''
   \<and> resolve_key (KeyPair 7 1) = Inr ''A#m'' \<and> resolve_key (KeyPair 8 0) = Inl KeyError"
  by code_simp

lemma key_from_name_minor: "fst (key_from_name name) = 1 \<longleftrightarrow> contains ''Minor'' name"
  by (simp add: key_from_name_def)

lemma key_from_name_default:
  "list_all (\<lambda>noteName. \<not> contains noteName name) key_note_names
     \<Longrightarrow> snd (key_from_name name) = ''C''"
  by (simp add: key_from_name_def key_note_names_def)

lemma contains_prefix: "contains (x # xs) name \<Longrightarrow> contains [x] name"
  unfolding contains_def sublist_def by (metis append_Cons append_Nil append_assoc)

text \<open>
  The two-character names that start with a letter standing earlier in the list are never
  the result: a name that contains one of them contains that letter.
\<close>

lemma key_from_name_unreachable:
  "snd (key_from_name name) \<notin> {''C#'', ''Bb'', ''Eb'', ''Ab'', ''Db'', ''Gb'', ''Cb''}"
  using contains_prefix [of "CHR ''C''" "''#''" name] contains_prefix [of "CHR ''B''" "''b''" name]
    contains_prefix [of "CHR ''E''" "''b''" name] contains_prefix [of "CHR ''A''" "''b''" name]
    contains_prefix [of "CHR ''D''" "''b''" name] contains_prefix [of "CHR ''G''" "''b''" name]
    contains_prefix [of "CHR ''C''" "''b''" name]
  by (simp add: key_from_name_def key_note_names_def)


end
